theory Spec2Isabelle
  imports Main "HOL-Library.Sublist"
begin

section \<open>Python strings and text files\<close>

text \<open>
  Strings are lists of characters (code points below 256). The helpers below are the
  string and file operations of the Python runtime that the service relies on:
  \<^verbatim>\<open>str.strip\<close>, \<^verbatim>\<open>str.split\<close> with a one-character separator, \<^verbatim>\<open>str.replace\<close> of one
  character, \<^verbatim>\<open>str.startswith\<close>, and \<^verbatim>\<open>readlines\<close> of a file opened in text mode
  with the default \<^verbatim>\<open>newline=None\<close> (universal newlines: a carriage return, alone or
  followed by a line feed, is read as a line feed).
\<close>

abbreviation TAB :: char where "TAB \<equiv> CHR 0x09"
abbreviation LF :: char where "LF \<equiv> CHR 0x0A"
abbreviation CR :: char where "CR \<equiv> CHR 0x0D"
abbreviation SP :: char where "SP \<equiv> CHR 0x20"

definition isspace :: "char \<Rightarrow> bool" where
  "isspace c = (c \<in> set [CHR 0x09, CHR 0x0A, CHR 0x0B, CHR 0x0C, CHR 0x0D,
                          CHR 0x1C, CHR 0x1D, CHR 0x1E, CHR 0x1F, CHR 0x20,
                          CHR 0x85, CHR 0xA0])"

definition rstrip :: "string \<Rightarrow> string" where
  "rstrip s = rev (dropWhile isspace (rev s))"

definition strip :: "string \<Rightarrow> string" where
  "strip s = rstrip (dropWhile isspace s)"

definition startswith :: "string \<Rightarrow> string \<Rightarrow> bool" where
  "startswith s p = (take (length p) s = p)"

definition replace :: "char \<Rightarrow> char \<Rightarrow> string \<Rightarrow> string" where
  "replace a b s = map (\<lambda>c. if c = a then b else c) s"

fun split_on :: "char \<Rightarrow> string \<Rightarrow> string list" where
  "split_on sep [] = [[]]"
| "split_on sep (c # cs) =
     (if c = sep then [] # split_on sep cs
      else (case split_on sep cs of [] \<Rightarrow> [[c]] | p # ps \<Rightarrow> (c # p) # ps))"

fun universal_newlines :: "string \<Rightarrow> string" where
  "universal_newlines [] = []"
| "universal_newlines [c] = (if c = CR then [LF] else [c])"
| "universal_newlines (c # d # ds) =
     (if c = CR then
        (if d = LF then LF # universal_newlines ds else LF # universal_newlines (d # ds))
      else c # universal_newlines (d # ds))"

fun keepends :: "string \<Rightarrow> string list" where
  "keepends [] = []"
| "keepends (c # cs) =
     (if c = LF then [c] # keepends cs
      else (case keepends cs of [] \<Rightarrow> [[c]] | l # ls \<Rightarrow> (c # l) # ls))"

definition readlines :: "string \<Rightarrow> string list" where
  "readlines content = keepends (universal_newlines content)"

text \<open>The decimal digits of a number, as \<^verbatim>\<open>str\<close> and f-strings write it.\<close>

fun str_nat :: "nat \<Rightarrow> string" where
  "str_nat n =
     (if n < 10 then [''0123456789'' ! n]
      else str_nat (n div 10) @ [''0123456789'' ! (n mod 10)])"

declare str_nat.simps [simp del]

section \<open>The service: rag\_service.py\<close>

text \<open>
  An exception is its class, its \<^verbatim>\<open>str(ex)\<close> and, when one is attached, the
  \<^verbatim>\<open>str\<close> of its \<^verbatim>\<open>__cause__\<close>. All classes but one are subclasses of
  \<^verbatim>\<open>Exception\<close>, which the \<^verbatim>\<open>except Exception\<close> clauses of the service catch.
  \<^verbatim>\<open>CancelledError\<close> (asyncio) derives from \<^verbatim>\<open>BaseException\<close> only and passes
  those clauses; it is raised at an \<^verbatim>\<open>await\<close> when the running task is cancelled,
  never by the synchronous calls.
\<close>

datatype exn_class =
  UserInputError | ServiceError | IndexError | ValueError | OtherException | CancelledError

datatype exn = Exn (class_of: exn_class) (str_of: string) (cause_of: "string option")

definition cause_str :: "exn \<Rightarrow> string" where
  "cause_str ex = (case cause_of ex of None \<Rightarrow> ''None'' | Some c \<Rightarrow> c)"

text \<open>
  What an awaited call of a collaborator does: it returns a value, it raises an
  instance of \<^verbatim>\<open>Exception\<close>, or the task is cancelled while it is suspended there.
\<close>

datatype 'a awaited = Returns 'a | Raises exn | Cancelled

definition cancelled :: exn where
  "cancelled = Exn CancelledError [] None"

text \<open>
  Modelled from the spec: \<^verbatim>\<open>RagConfiguration\<close> (pai\_rag.core.rag\_configuration is
  not among the sources). A snapshot is a key-value content; two snapshot objects
  (told apart by \<open>snapshot_origin\<close>) may carry the same content. \<open>to_dict\<close> of the
  value is that content, a dictionary written as its items in key order, so that the
  order-insensitive \<^verbatim>\<open>!=\<close> of two dictionaries is the inequality of two lists.
\<close>

type_synonym config_dict = "(string \<times> string) list"

record rag_configuration =
  snapshot_origin :: nat
  get_value :: config_dict

definition to_dict :: "config_dict \<Rightarrow> config_dict" where
  "to_dict v = v"

text \<open>
  The collaborators of the service, as what each of their calls returns or raises
  during one operation: the configuration store, the RAG application.
\<close>

record collaborators =
  from_snapshot :: "exn + rag_configuration"
  snapshot_update :: "rag_configuration \<Rightarrow> (string \<times> string) list \<Rightarrow> exn + rag_configuration"
  get_config_mtime :: "rag_configuration \<Rightarrow> exn + nat"
  persist :: "rag_configuration \<Rightarrow> exn option"
  rag_reload :: "config_dict \<Rightarrow> exn option"
  rag_aload_knowledge :: "string list \<Rightarrow> string option \<Rightarrow> string option \<Rightarrow> bool \<Rightarrow> unit awaited"
  rag_aquery :: "string \<Rightarrow> string awaited"
  rag_aquery_llm :: "string \<Rightarrow> string awaited"
  rag_aquery_retrieval :: "string \<Rightarrow> string awaited"
  rag_aquery_agent :: "string \<Rightarrow> string awaited"

datatype rag_call =
    Reload config_dict
  | Persist rag_configuration
  | AloadKnowledge "string list" "string option" "string option" bool
  | Aquery string
  | AqueryLlm string
  | AqueryRetrieval string
  | AqueryAgent string

text \<open>
  The state of a \<^verbatim>\<open>RagService\<close>: its three configuration fields, the content of
  the file \<^verbatim>\<open>TASK_STATUS_FILE\<close> (\<open>None\<close> while the file does not exist) and the
  calls it has made to its collaborators, oldest first. Modification times are only
  compared for equality; they are numbered. Appending to the status file is taken to
  succeed.
\<close>

record rag_service =
  rag_configuration :: rag_configuration
  config_dict_value :: config_dict
  config_modified_time :: nat
  task_status_file :: "string option"
  rag_calls :: "rag_call list"

definition reload_body ::
  "collaborators \<Rightarrow> (string \<times> string) list option \<Rightarrow> rag_service \<Rightarrow> (exn + unit) \<times> rag_service" where
  "reload_body env new_config s =
     (case from_snapshot env of
        Inl ex \<Rightarrow> (Inl ex, s)
      | Inr rag_snapshot0 \<Rightarrow>
          (case (case new_config of
                   Some (kv # kvs) \<Rightarrow> snapshot_update env rag_snapshot0 (kv # kvs)
                 | _ \<Rightarrow> Inr rag_snapshot0) of
             Inl ex \<Rightarrow> (Inl ex, s)
           | Inr rag_snapshot \<Rightarrow>
               (let config_snapshot = get_value rag_snapshot;
                    new_dict_value = to_dict config_snapshot
                in if config_dict_value s \<noteq> new_dict_value then
                     (let s1 = s\<lparr>rag_calls := rag_calls s @ [Reload config_snapshot]\<rparr>
                      in case rag_reload env config_snapshot of
                           Some ex \<Rightarrow> (Inl ex, s1)
                         | None \<Rightarrow>
                             (let s2 = s1\<lparr>config_dict_value := new_dict_value,
                                          rag_configuration := rag_snapshot\<rparr>;
                                  s3 = s2\<lparr>rag_calls := rag_calls s2 @ [Persist rag_snapshot]\<rparr>
                              in case persist env rag_snapshot of
                                   Some ex \<Rightarrow> (Inl ex, s3)
                                 | None \<Rightarrow> (Inr (), s3)))
                   else (Inr (), s))))"

definition reload ::
  "collaborators \<Rightarrow> (string \<times> string) list option \<Rightarrow> rag_service \<Rightarrow> (exn + unit) \<times> rag_service" where
  "reload env new_config s =
     (case reload_body env new_config s of
        (Inl ex, s') \<Rightarrow>
          (Inl (Exn UserInputError (''Update RAG configuration failed: '' @ str_of ex) None), s')
      | (Inr u, s') \<Rightarrow> (Inr u, s'))"

definition check_updates :: "collaborators \<Rightarrow> rag_service \<Rightarrow> (exn + unit) \<times> rag_service" where
  "check_updates env s =
     (case get_config_mtime env (rag_configuration s) of
        Inl ex \<Rightarrow> (Inl ex, s)
      | Inr new_modified_time \<Rightarrow>
          if config_modified_time s \<noteq> new_modified_time then
            (case reload env None s of
               (Inl ex, s') \<Rightarrow> (Inl ex, s')
             | (Inr u, s') \<Rightarrow> (Inr (), s'\<lparr>config_modified_time := new_modified_time\<rparr>))
          else (Inr (), s))"


definition append_status :: "string \<Rightarrow> rag_service \<Rightarrow> rag_service" where
  "append_status line s =
     s\<lparr>task_status_file :=
         Some ((case task_status_file s of None \<Rightarrow> [] | Some old \<Rightarrow> old) @ line)\<rparr>"

definition failure_detail :: "exn \<Rightarrow> string" where
  "failure_detail ex = replace LF SP (replace TAB SP (str_of ex @ '': '' @ cause_str ex))"

definition add_knowledge_async ::
  "collaborators \<Rightarrow> string \<Rightarrow> string list \<Rightarrow> string option \<Rightarrow> string option \<Rightarrow> bool \<Rightarrow>
     rag_service \<Rightarrow> (exn + unit) \<times> rag_service" where
  "add_knowledge_async env task_id input_files filter_pattern faiss_path enable_qa_extraction s =
     (case check_updates env s of
        (Inl ex, s0) \<Rightarrow> (Inl ex, s0)
      | (Inr u, s0) \<Rightarrow>
          (let s1 = append_status (task_id @ [TAB] @ ''processing'' @ [LF]) s0;
               s2 = s1\<lparr>rag_calls := rag_calls s1 @
                         [AloadKnowledge input_files filter_pattern faiss_path enable_qa_extraction]\<rparr>
           in case rag_aload_knowledge env input_files filter_pattern faiss_path enable_qa_extraction of
                Returns u \<Rightarrow> (Inr (), append_status (task_id @ [TAB] @ ''completed'' @ [LF]) s2)
              | Raises ex \<Rightarrow>
                  (Inl (Exn UserInputError (''Upload knowledge failed: '' @ str_of ex) None),
                   append_status
                     (task_id @ [TAB] @ ''failed'' @ [TAB] @ failure_detail ex @ [LF]) s2)
              | Cancelled \<Rightarrow> (Inl cancelled, s2)))"

text \<open>
  \<^verbatim>\<open>get_task_status\<close> returns the bare string \<^verbatim>\<open>status\<close> when the file does not
  exist and the pair \<^verbatim>\<open>status, detail\<close> otherwise; both shapes are kept.
  \<^verbatim>\<open>parts[1]\<close> raises \<^verbatim>\<open>IndexError\<close> on a line without a tab.
\<close>

datatype status_result = StatusOnly string | StatusDetail string "string option"

fun scan_lines :: "string \<Rightarrow> string list \<Rightarrow> exn + status_result" where
  "scan_lines task_id [] = Inr (StatusDetail ''unknown'' None)"
| "scan_lines task_id (line # lines) =
     (if startswith line task_id then
        (let parts = split_on TAB (strip line)
         in if length parts < 2 then Inl (Exn IndexError ''list index out of range'' None)
            else Inr (StatusDetail (parts ! 1)
                        (if length parts = 3 then Some (parts ! 2) else None)))
      else scan_lines task_id lines)"

definition get_task_status ::
  "collaborators \<Rightarrow> string \<Rightarrow> rag_service \<Rightarrow> (exn + status_result) \<times> rag_service" where
  "get_task_status env task_id s =
     (case check_updates env s of
        (Inl ex, s') \<Rightarrow> (Inl ex, s')
      | (Inr u, s') \<Rightarrow>
          (case task_status_file s' of
             None \<Rightarrow> (Inr (StatusOnly ''unknown''), s')
           | Some content \<Rightarrow> (scan_lines task_id (rev (readlines content)), s')))"






text \<open>
  The route \<^verbatim>\<open>task_status\<close> of query.py unpacks the result into two names:
  \<^verbatim>\<open>status, detail = rag_service.get_task_status(task_id)\<close>. Unpacking a string
  succeeds only when it has exactly two characters.
\<close>

definition task_status ::
  "collaborators \<Rightarrow> string \<Rightarrow> rag_service \<Rightarrow> (exn + (string \<times> string \<times> string option)) \<times> rag_service" where
  "task_status env task_id s =
     (case get_task_status env task_id s of
        (Inl ex, s') \<Rightarrow> (Inl ex, s')
      | (Inr (StatusDetail status detail), s') \<Rightarrow> (Inr (task_id, status, detail), s')
      | (Inr (StatusOnly status), s') \<Rightarrow>
          (case status of
             [a, b] \<Rightarrow> (Inr (task_id, [a], Some [b]), s')
           | _ \<Rightarrow>
               (Inl (Exn ValueError
                      (if length status < 2 then
                         ''not enough values to unpack (expected 2, got '' @
                         str_nat (length status) @ '')''
                       else ''too many values to unpack (expected 2)'')
                      None), s')))"

section \<open>The data loader: rag\_dataloader.py\<close>

text \<open>
  A metadata dictionary is the list of its items in insertion order, with values
  written as strings. Nodes refer to their metadata dictionary by its address in a
  store, because \<^verbatim>\<open>_get_nodes\<close> writes to a dictionary that several objects may
  share. A document is a value: nothing reads a document after its nodes are built.
\<close>

type_synonym metadata = "(string \<times> string) list"

type_synonym store = "metadata list"

definition dict_get :: "metadata \<Rightarrow> string \<Rightarrow> string \<Rightarrow> string" where
  "dict_get m k d = (case map_of m k of None \<Rightarrow> d | Some v \<Rightarrow> v)"

fun setitem :: "metadata \<Rightarrow> string \<Rightarrow> string \<Rightarrow> metadata" where
  "setitem [] k v = [(k, v)]"
| "setitem (p # ps) k v = (if fst p = k then (k, v) # ps else p # setitem ps k v)"

record document =
  doc_text :: string
  doc_metadata :: metadata

record text_node =
  node_id :: string
  node_text :: string
  metadata_ref :: nat
  embedding :: "int list option"
  excluded_embed_metadata_keys :: "string list"
  excluded_llm_metadata_keys :: "string list"

text \<open>
  \<^verbatim>\<open>os.path.splitext\<close> on a POSIX path: the extension starts at the last dot of the
  last path component, unless only dots precede it there.
\<close>

fun rfind_from :: "char \<Rightarrow> string \<Rightarrow> int \<Rightarrow> int \<Rightarrow> int" where
  "rfind_from c [] i found = found"
| "rfind_from c (x # xs) i found = rfind_from c xs (i + 1) (if x = c then i else found)"

definition rfind :: "string \<Rightarrow> char \<Rightarrow> int" where
  "rfind p c = rfind_from c p 0 (- 1)"

fun has_non_dot :: "string \<Rightarrow> bool" where
  "has_non_dot [] = False"
| "has_non_dot (c # cs) = (if c \<noteq> CHR ''.'' then True else has_non_dot cs)"

definition splitext :: "string \<Rightarrow> string \<times> string" where
  "splitext p =
     (let sepIndex = rfind p (CHR ''/'');
          dotIndex = rfind p (CHR ''.'')
      in if dotIndex > sepIndex \<and>
            has_non_dot (take (nat (dotIndex - (sepIndex + 1))) (drop (nat (sepIndex + 1)) p))
         then (take (nat dotIndex) p, drop (nat dotIndex) p)
         else (p, []))"

definition extract_file_type :: "metadata \<Rightarrow> string" where
  "extract_file_type m = snd (splitext (dict_get m ''file_name'' ''dummy.txt''))"

definition DOC_TYPES_DO_NOT_NEED_CHUNKING :: "string set" where
  "DOC_TYPES_DO_NOT_NEED_CHUNKING = {''.csv'', ''.xlsx'', ''.xls'', ''.htm'', ''.html''}"

text \<open>
  Modelled from the spec: \<open>node_id_hash\<close> of pai\_rag.modules.nodeparser.node\_parser,
  which is not among the sources. The specification says of the identifier of a node
  that it is ``deterministically derived from source document + ordinal position'': so
  \<open>node_id_hash\<close> is a function of the counter and the document it is called with, and
  of nothing else. Which function, the specification does not say, so it is a parameter
  of the loader.

  The readers, the two node parsers and the extraction passes belong to libraries and
  are parameters too. A parser returns, per node, its identifier, text and metadata
  items. An extraction pass returns, per node, the items of its
  \<^verbatim>\<open>qa_extraction_result\<close> when that key is present. \<open>textnode_copies_metadata\<close> tells
  whether the \<^verbatim>\<open>TextNode\<close> constructor of the library stores a copy of the
  dictionary it is given, or the dictionary itself.
\<close>

record loader_deps =
  isfile :: "string \<Rightarrow> bool"
  isdir :: "string \<Rightarrow> bool"
  rglob :: "string \<Rightarrow> string \<Rightarrow> string list"
  load_data :: "string list \<Rightarrow> exn + document list"
  node_id_hash :: "nat \<Rightarrow> document \<Rightarrow> string"
  markdown_get_nodes :: "document \<Rightarrow> (string \<times> string \<times> metadata) list"
  node_parser_get_nodes :: "document \<Rightarrow> (string \<times> string \<times> metadata) list"
  extractors :: "(store \<Rightarrow> text_node list \<Rightarrow> exn + (string \<times> string) list option list) list"
  textnode_copies_metadata :: bool

datatype path_arg = PathStr string | PathList "string list"

definition new_node :: "string \<Rightarrow> string \<Rightarrow> nat \<Rightarrow> text_node" where
  "new_node i t r =
     \<lparr>node_id = i, node_text = t, metadata_ref = r, embedding = None,
      excluded_embed_metadata_keys = [], excluded_llm_metadata_keys = []\<rparr>"

definition TextNode :: "bool \<Rightarrow> string \<Rightarrow> string \<Rightarrow> nat \<Rightarrow> store \<Rightarrow> text_node \<times> store" where
  "TextNode copies i t r st =
     (if copies then (new_node i t (length st), st @ [st ! r]) else (new_node i t r, st))"

fun add_parsed ::
  "(string \<times> string \<times> metadata) list \<Rightarrow> text_node list \<times> store \<Rightarrow> text_node list \<times> store" where
  "add_parsed [] acc = acc"
| "add_parsed ((i, t, m) # ps) (nodes, st) =
     add_parsed ps (nodes @ [new_node i t (length st)], st @ [m])"

definition resolve_input_files :: "loader_deps \<Rightarrow> path_arg \<Rightarrow> string option \<Rightarrow> string list" where
  "resolve_input_files deps file_path filter_pattern =
     (let pattern = (case filter_pattern of None \<Rightarrow> ''*'' | Some p \<Rightarrow> if p = [] then ''*'' else p)
      in case file_path of
           PathList fs \<Rightarrow> filter (isfile deps) fs
         | PathStr p \<Rightarrow>
             if isdir deps p then filter (isfile deps) (rglob deps p pattern) else [p])"

definition doc_key_of :: "document \<Rightarrow> string" where
  "doc_key_of doc = dict_get (doc_metadata doc) ''file_path'' ''dummy''"

definition doc_step ::
  "loader_deps \<Rightarrow> document \<Rightarrow> text_node list \<times> (string \<rightharpoonup> nat) \<times> store \<Rightarrow>
     text_node list \<times> (string \<rightharpoonup> nat) \<times> store" where
  "doc_step deps doc acc =
     (case acc of (nodes, doc_cnt_map, st) \<Rightarrow>
        (let doc_type = extract_file_type (doc_metadata doc)
         in if doc_type \<in> DOC_TYPES_DO_NOT_NEED_CHUNKING then
              (let doc_key = doc_key_of doc;
                   cnt = (case doc_cnt_map doc_key of None \<Rightarrow> 0 | Some n \<Rightarrow> n) + 1;
                   new_id = node_id_hash deps cnt doc;
                   st1 = st @ [doc_metadata doc]
               in case TextNode (textnode_copies_metadata deps) new_id (doc_text doc) (length st) st1 of
                    (n, st2) \<Rightarrow> (nodes @ [n], doc_cnt_map(doc_key \<mapsto> cnt), st2))
            else if doc_type = ''.md'' then
              (case add_parsed (markdown_get_nodes deps doc) (nodes, st) of
                 (nodes', st') \<Rightarrow> (nodes', doc_cnt_map, st'))
            else
              (case add_parsed (node_parser_get_nodes deps doc) (nodes, st) of
                 (nodes', st') \<Rightarrow> (nodes', doc_cnt_map, st'))))"

fun docs_loop ::
  "loader_deps \<Rightarrow> document list \<Rightarrow> text_node list \<times> (string \<rightharpoonup> nat) \<times> store \<Rightarrow>
     text_node list \<times> (string \<rightharpoonup> nat) \<times> store" where
  "docs_loop deps [] acc = acc"
| "docs_loop deps (doc # docs) acc = docs_loop deps docs (doc_step deps doc acc)"

fun qa_pairs_loop ::
  "bool \<Rightarrow> text_node \<Rightarrow> (string \<times> string) list \<Rightarrow> nat \<Rightarrow> text_node list \<times> store \<Rightarrow>
     text_node list \<times> store" where
  "qa_pairs_loop copies node [] q_cnt acc = acc"
| "qa_pairs_loop copies node ((q, a) # qas) q_cnt (qa_nodes, st) =
     (let st1 = st[metadata_ref node := setitem (st ! metadata_ref node) ''answer'' a]
      in case TextNode copies (node_id node @ ''_'' @ str_nat q_cnt) q (metadata_ref node) st1 of
           (n, st2) \<Rightarrow> qa_pairs_loop copies node qas (q_cnt + 1) (qa_nodes @ [n], st2))"

fun qa_nodes_loop ::
  "bool \<Rightarrow> (string \<times> string) list option list \<Rightarrow> text_node list \<Rightarrow> text_node list \<times> store \<Rightarrow>
     exn + text_node list \<times> store" where
  "qa_nodes_loop copies metadata_list [] acc = Inr acc"
| "qa_nodes_loop copies [] (node # nodes) acc = Inl (Exn IndexError ''list index out of range'' None)"
| "qa_nodes_loop copies (m # metadata_list) (node # nodes) acc =
     qa_nodes_loop copies metadata_list nodes
       (qa_pairs_loop copies node (case m of None \<Rightarrow> [] | Some qa \<Rightarrow> qa) 0 acc)"

fun extractors_loop ::
  "bool \<Rightarrow> (store \<Rightarrow> text_node list \<Rightarrow> exn + (string \<times> string) list option list) list \<Rightarrow>
     text_node list \<Rightarrow> text_node list \<times> store \<Rightarrow> exn + text_node list \<times> store" where
  "extractors_loop copies [] nodes acc = Inr acc"
| "extractors_loop copies (extractor # es) nodes (qa_nodes, st) =
     (case extractor st nodes of
        Inl ex \<Rightarrow> Inl ex
      | Inr metadata_list \<Rightarrow>
          (case qa_nodes_loop copies metadata_list nodes (qa_nodes, st) of
             Inl ex \<Rightarrow> Inl ex
           | Inr acc \<Rightarrow> extractors_loop copies es nodes acc))"

definition mark_excluded :: "text_node \<Rightarrow> text_node" where
  "mark_excluded node =
     node\<lparr>excluded_embed_metadata_keys := excluded_embed_metadata_keys node @ [''answer''],
          excluded_llm_metadata_keys := excluded_llm_metadata_keys node @ [''question'']\<rparr>"

text \<open>
  \<^verbatim>\<open>_get_nodes\<close>: \<open>None\<close> is the bare \<^verbatim>\<open>return\<close> on an empty file list. The store
  that holds the metadata of the nodes is returned with them.
\<close>

definition get_nodes ::
  "loader_deps \<Rightarrow> path_arg \<Rightarrow> string option \<Rightarrow> bool \<Rightarrow> exn + text_node list option \<times> store" where
  "get_nodes deps file_path filter_pattern enable_qa_extraction =
     (let input_files = resolve_input_files deps file_path filter_pattern
      in if length input_files = 0 then Inr (None, [])
         else
           (case load_data deps input_files of
              Inl ex \<Rightarrow> Inl ex
            | Inr docs \<Rightarrow>
                (case docs_loop deps docs ([], Map.empty, []) of
                   (nodes, doc_cnt_map, st) \<Rightarrow>
                     if enable_qa_extraction then
                       (case extractors_loop (textnode_copies_metadata deps) (extractors deps)
                               nodes ([], st) of
                          Inl ex \<Rightarrow> Inl ex
                        | Inr (qa_nodes, st') \<Rightarrow>
                            Inr (Some (nodes @ map mark_excluded qa_nodes), st'))
                     else Inr (Some nodes, st))))"

section \<open>The index: my\_vector\_store\_index.py\<close>

text \<open>
  \<^verbatim>\<open>iter_batch\<close> of llama\_index.core.utils: slices of \<open>sz\<close> items until a slice is
  empty.
\<close>

function iter_batch :: "'a list \<Rightarrow> nat \<Rightarrow> 'a list list" where
  "iter_batch xs sz =
     (let b = take sz xs in if length b = 0 then [] else b # iter_batch (drop sz xs) sz)"
  by pat_completeness auto
termination
  by (relation "measure (\<lambda>(xs, sz). length xs)") auto

declare iter_batch.simps [simp del]

datatype index_call =
    AsyncAdd nat "text_node list"
  | IndexStructAddNode text_node string
  | DocstoreAddDocuments "text_node list"
  | AddIndexStruct
  | InsertNodes "text_node list"
  | StoragePersist
  | Bm25AddDocs "text_node list"
  | WriteIndexMetadata

text \<open>
  What the index is built from: the embedding step of the library
  (\<^verbatim>\<open>_get_node_with_embedding\<close>), the identifiers the vector store assigns to a batch,
  the two flags read by \<^verbatim>\<open>_process_one_batch\<close>, and whether the loader has a keyword
  index.
\<close>

record index_deps =
  get_node_with_embedding :: "text_node list \<Rightarrow> exn + text_node list"
  async_add_ids :: "text_node list \<Rightarrow> string list"
  stores_text :: bool
  store_nodes_override :: bool
  bm25_index :: bool

fun embed_batches :: "index_deps \<Rightarrow> text_node list list \<Rightarrow> exn + text_node list list" where
  "embed_batches deps [] = Inr []"
| "embed_batches deps (nodes_batch # rest) =
     (case get_node_with_embedding deps nodes_batch of
        Inl ex \<Rightarrow> Inl ex
      | Inr embedded \<Rightarrow>
          (case embed_batches deps rest of
             Inl ex \<Rightarrow> Inl ex
           | Inr node_batch_list \<Rightarrow> Inr (embedded # node_batch_list)))"

definition register_nodes :: "index_deps \<Rightarrow> text_node list \<Rightarrow> index_call list" where
  "register_nodes deps nodes_batch =
     (if \<not> stores_text deps \<or> store_nodes_override deps then
        concat (map (\<lambda>(node, new_id).
                       [IndexStructAddNode (node\<lparr>embedding := None\<rparr>) new_id,
                        DocstoreAddDocuments [node\<lparr>embedding := None\<rparr>]])
                    (zip nodes_batch (async_add_ids deps nodes_batch)))
      else [])"

text \<open>
  \<^verbatim>\<open>_postprocess_all_batch\<close> creates one coroutine per batch, all sharing one
  \<^verbatim>\<open>asyncio.Semaphore(10)\<close>, and gathers them. Which coroutine moves next is the
  event loop's choice, so the run is driven by a schedule, a list of events:
  \<^item> \<open>Acquire i\<close>: coroutine \<open>i\<close> enters \<^verbatim>\<open>async with semaphore\<close> (possible only
    while the semaphore's value is positive) and issues \<^verbatim>\<open>async_add\<close> for its batch;
  \<^item> \<open>Complete i\<close>: its \<^verbatim>\<open>async_add\<close> returns, the nodes are registered (no
    suspension point in between) and the semaphore is released;
  \<^item> \<open>Fail i ex\<close>: its \<^verbatim>\<open>async_add\<close> raises and the semaphore is released.
  An event that is not enabled leaves the state as it is.
\<close>

datatype task_state = Waiting | Holding | Returned | Raised

datatype sched_event = Acquire nat | Complete nat | Fail nat exn

record gather_state =
  semaphore :: nat
  tasks :: "task_state list"
  first_raised :: "exn option"
  index_calls :: "index_call list"

fun sched_step :: "index_deps \<Rightarrow> text_node list list \<Rightarrow> sched_event \<Rightarrow> gather_state \<Rightarrow> gather_state" where
  "sched_step deps batches (Acquire i) g =
     (if i < length (tasks g) \<and> tasks g ! i = Waiting \<and> 0 < semaphore g then
        g\<lparr>semaphore := semaphore g - 1,
          tasks := (tasks g)[i := Holding],
          index_calls := index_calls g @ [AsyncAdd i (batches ! i)]\<rparr>
      else g)"
| "sched_step deps batches (Complete i) g =
     (if i < length (tasks g) \<and> tasks g ! i = Holding then
        g\<lparr>semaphore := semaphore g + 1,
          tasks := (tasks g)[i := Returned],
          index_calls := index_calls g @ register_nodes deps (batches ! i)\<rparr>
      else g)"
| "sched_step deps batches (Fail i ex) g =
     (if i < length (tasks g) \<and> tasks g ! i = Holding then
        g\<lparr>semaphore := semaphore g + 1,
          tasks := (tasks g)[i := Raised],
          first_raised := (case first_raised g of None \<Rightarrow> Some ex | Some e \<Rightarrow> Some e)\<rparr>
      else g)"

fun run_sched ::
  "index_deps \<Rightarrow> text_node list list \<Rightarrow> sched_event list \<Rightarrow> gather_state \<Rightarrow> gather_state" where
  "run_sched deps batches [] g = g"
| "run_sched deps batches (e # es) g = run_sched deps batches es (sched_step deps batches e g)"

definition postprocess_all_batch ::
  "index_deps \<Rightarrow> text_node list list \<Rightarrow> sched_event list \<Rightarrow> gather_state" where
  "postprocess_all_batch deps nodes_batch_list sched =
     run_sched deps nodes_batch_list sched
       \<lparr>semaphore = 10, tasks = replicate (length nodes_batch_list) Waiting,
        first_raised = None, index_calls = []\<rparr>"

definition holding :: "gather_state \<Rightarrow> nat" where
  "holding g = length (filter (\<lambda>t. t = Holding) (tasks g))"

text \<open>
  \<^verbatim>\<open>asyncio.gather\<close> returns once every coroutine has returned and raises the first
  exception raised by one of them, while the other coroutines go on; \<open>None\<close>: it is
  still suspended.
\<close>

definition gather_outcome :: "gather_state \<Rightarrow> (exn + unit) option" where
  "gather_outcome g =
     (case first_raised g of
        Some ex \<Rightarrow> Some (Inl ex)
      | None \<Rightarrow> if list_all (\<lambda>t. t = Returned) (tasks g) then Some (Inr ()) else None)"

definition async_add_nodes_to_index ::
  "index_deps \<Rightarrow> sched_event list \<Rightarrow> text_node list \<Rightarrow> index_call list \<times> (exn + unit) option" where
  "async_add_nodes_to_index deps sched nodes =
     (if nodes = [] then ([], Some (Inr ()))
      else
        (case embed_batches deps (iter_batch nodes 100) of
           Inl ex \<Rightarrow> ([], Some (Inl ex))
         | Inr node_batch_list \<Rightarrow>
             (let g = postprocess_all_batch deps node_batch_list sched
              in (index_calls g, gather_outcome g))))"

text \<open>
  \<^verbatim>\<open>insert_nodes_async\<close>. The loader's nodes are \<^verbatim>\<open>TextNode\<close>s, none an
  \<^verbatim>\<open>IndexNode\<close>, so the first loop of the method does nothing.
\<close>

definition insert_nodes_async ::
  "index_deps \<Rightarrow> sched_event list \<Rightarrow> text_node list \<Rightarrow> index_call list \<times> (exn + unit) option" where
  "insert_nodes_async deps sched nodes =
     (case async_add_nodes_to_index deps sched nodes of
        (calls, Some (Inr u)) \<Rightarrow> (calls @ [AddIndexStruct], Some (Inr ()))
      | (calls, outcome) \<Rightarrow> (calls, outcome))"

text \<open>
  \<^verbatim>\<open>RagDataLoader.aload\<close> and \<^verbatim>\<open>RagDataLoader.load\<close>. \<open>aload_insert\<close> is the rest
  of \<^verbatim>\<open>aload\<close> once it has nodes: the awaited insert, then the persistence of the
  storage context, then the keyword index and the index-metadata record.
\<close>

definition aload_insert ::
  "index_deps \<Rightarrow> sched_event list \<Rightarrow> text_node list \<Rightarrow> index_call list \<times> (exn + unit) option" where
  "aload_insert ideps sched nodes =
     (case insert_nodes_async ideps sched nodes of
        (calls, Some (Inr u)) \<Rightarrow>
          (calls @ [StoragePersist] @
             (if bm25_index ideps then [Bm25AddDocs nodes, WriteIndexMetadata] else []),
           Some (Inr ()))
      | (calls, outcome) \<Rightarrow> (calls, outcome))"

definition aload ::
  "loader_deps \<Rightarrow> index_deps \<Rightarrow> sched_event list \<Rightarrow> path_arg \<Rightarrow> string option \<Rightarrow> bool \<Rightarrow>
     index_call list \<times> (exn + unit) option" where
  "aload deps ideps sched file_path filter_pattern enable_qa_extraction =
     (case get_nodes deps file_path filter_pattern enable_qa_extraction of
        Inl ex \<Rightarrow> ([], Some (Inl ex))
      | Inr (None, st) \<Rightarrow> ([], Some (Inr ()))
      | Inr (Some nodes, st) \<Rightarrow>
          if nodes = [] then ([], Some (Inr ())) else aload_insert ideps sched nodes)"

definition load ::
  "loader_deps \<Rightarrow> index_deps \<Rightarrow> path_arg \<Rightarrow> string option \<Rightarrow> bool \<Rightarrow>
     index_call list \<times> (exn + unit)" where
  "load deps ideps file_path filter_pattern enable_qa_extraction =
     (case get_nodes deps file_path filter_pattern enable_qa_extraction of
        Inl ex \<Rightarrow> ([], Inl ex)
      | Inr (None, st) \<Rightarrow> ([], Inr ())
      | Inr (Some nodes, st) \<Rightarrow>
          if nodes = [] then ([], Inr ())
          else
            ([InsertNodes nodes, StoragePersist] @
               (if bm25_index ideps then [Bm25AddDocs nodes, WriteIndexMetadata] else []),
             Inr ()))"

section \<open>Reading aids and example inputs\<close>

text \<open>The text of the status log: empty while the file does not exist.\<close>

definition log_text :: "rag_service \<Rightarrow> string" where
  "log_text s = (case task_status_file s of None \<Rightarrow> [] | Some old \<Rightarrow> old)"








text \<open>
  Example documents (file name and file path are the same string), a loader whose
  reader returns the given documents whatever the files, whose parsers return one node
  per document, whose first extraction pass returns the given question-answer items
  for every node and whose second returns none; and an index whose embedding step
  returns the batch as it is.
\<close>

definition example_doc :: "string \<Rightarrow> string \<Rightarrow> document" where
  "example_doc name body =
     \<lparr>doc_text = body, doc_metadata = [(''file_name'', name), (''file_path'', name)]\<rparr>"

definition example_loader ::
  "document list \<Rightarrow> (string \<times> string) list \<Rightarrow> bool \<Rightarrow> loader_deps" where
  "example_loader docs qa copies =
     \<lparr>isfile = (\<lambda>f. f \<noteq> ''missing.txt''),
      isdir = (\<lambda>f. False),
      rglob = (\<lambda>d p. []),
      load_data = (\<lambda>fs. Inr docs),
      node_id_hash = (\<lambda>n d. str_nat n @ '':'' @ dict_get (doc_metadata d) ''file_name'' []),
      markdown_get_nodes = (\<lambda>d. [(''m'', doc_text d, doc_metadata d)]),
      node_parser_get_nodes = (\<lambda>d. [(''p'', doc_text d, doc_metadata d)]),
      extractors = [(\<lambda>st ns. Inr (map (\<lambda>n. Some qa) ns)), (\<lambda>st ns. Inr (map (\<lambda>n. None) ns))],
      textnode_copies_metadata = copies\<rparr>"

definition example_index :: index_deps where
  "example_index =
     \<lparr>get_node_with_embedding = (\<lambda>b. Inr b),
      async_add_ids = (\<lambda>b. map node_id b),
      stores_text = True,
      store_nodes_override = False,
      bm25_index = True\<rparr>"

text \<open>
  A service whose active configuration has one key, last seen at modification time 7,
  before any upload (no status log yet); and its collaborators, given what reading the
  modification time and loading the knowledge do. The persisted snapshot is another
  object with the same content.
\<close>

definition example_service :: rag_service where
  "example_service =
     \<lparr>rag_configuration = \<lparr>snapshot_origin = 0, get_value = [(''llm'', ''a'')]\<rparr>,
      config_dict_value = [(''llm'', ''a'')], config_modified_time = 7,
      task_status_file = None, rag_calls = []\<rparr>"

definition example_env :: "exn + nat \<Rightarrow> unit awaited \<Rightarrow> collaborators" where
  "example_env mtime outcome =
     \<lparr>from_snapshot = Inr \<lparr>snapshot_origin = 1, get_value = [(''llm'', ''a'')]\<rparr>,
      snapshot_update = (\<lambda>c p. Inr c),
      get_config_mtime = (\<lambda>c. mtime),
      persist = (\<lambda>c. None),
      rag_reload = (\<lambda>c. None),
      rag_aload_knowledge = (\<lambda>files pat fp qa. outcome),
      rag_aquery = (\<lambda>q. Returns q), rag_aquery_llm = (\<lambda>q. Returns q),
      rag_aquery_retrieval = (\<lambda>q. Returns q), rag_aquery_agent = (\<lambda>q. Returns q)\<rparr>"




definition example_batches :: "text_node list list" where
  "example_batches = map (\<lambda>k. [new_node (str_nat k) ''t'' k]) [0..<11]"

definition ten_acquired :: gather_state where
  "ten_acquired = postprocess_all_batch example_index example_batches (map Acquire [0..<10])"

section \<open>Properties of the service\<close>

subsection \<open>What the freshness check leaves alone\<close>

lemma reload_body_frame:
  "task_status_file (snd (reload_body env nc s)) = task_status_file s \<and>
   prefix (rag_calls s) (rag_calls (snd (reload_body env nc s)))"
  by (simp add: reload_body_def Let_def split: sum.splits option.splits list.splits)

lemma reload_frame:
  "task_status_file (snd (reload env nc s)) = task_status_file s \<and>
   prefix (rag_calls s) (rag_calls (snd (reload env nc s)))"
  using reload_body_frame [of env nc s]
  by (cases "reload_body env nc s") (auto simp: reload_def split: sum.splits)

lemma check_updates_frame:
  "task_status_file (snd (check_updates env s)) = task_status_file s \<and>
   prefix (rag_calls s) (rag_calls (snd (check_updates env s)))"
  using reload_frame [of env None s]
  by (cases "reload env None s") (auto simp: check_updates_def split: sum.splits)

lemma check_updates_fresh:
  assumes "fst (check_updates env s) = Inr ()"
  obtains s0 where "check_updates env s = (Inr (), s0)"
    and "task_status_file s0 = task_status_file s"
proof -
  obtain r s0 where r: "check_updates env s = (r, s0)" by (cases "check_updates env s")
  with assms have "check_updates env s = (Inr (), s0)" by simp
  moreover have "task_status_file s0 = task_status_file s"
    using check_updates_frame [of env s] r by simp
  ultimately show thesis by (rule that)
qed

subsection \<open>Lines of a text file\<close>








subsection \<open>Splitting and stripping a record\<close>







subsection \<open>The record of a failed ingestion\<close>




subsection \<open>The records of one ingestion\<close>

text \<open>
  C6, as amended. An ingestion whose freshness check passes appends the
  \<^verbatim>\<open>processing\<close> record of its task identifier and then: the \<^verbatim>\<open>completed\<close> record,
  without detail, when \<^verbatim>\<open>aload_knowledge\<close> returns (the invocation returns); the
  \<^verbatim>\<open>failed\<close> record with the sanitised detail when it raises an \<^verbatim>\<open>Exception\<close> (the
  invocation raises a \<^verbatim>\<open>UserInputError\<close>); no terminal record when the load is
  cancelled (the invocation raises \<^verbatim>\<open>CancelledError\<close>). It appends nothing else. An
  ingestion whose freshness check raises appends no record and raises that error.
\<close>

theorem ingestion_appends_processing_then_terminal:
  "(fst (check_updates env s) = Inr () \<longrightarrow>
      task_status_file (snd (add_knowledge_async env task_id files pat fp qa s)) =
        Some (log_text s @ (task_id @ [TAB] @ ''processing'' @ [LF]) @
              (case rag_aload_knowledge env files pat fp qa of
                 Returns u \<Rightarrow> task_id @ [TAB] @ ''completed'' @ [LF]
               | Raises e \<Rightarrow> task_id @ [TAB] @ ''failed'' @ [TAB] @ failure_detail e @ [LF]
               | Cancelled \<Rightarrow> [])) \<and>
      fst (add_knowledge_async env task_id files pat fp qa s) =
        (case rag_aload_knowledge env files pat fp qa of
           Returns u \<Rightarrow> Inr ()
         | Raises e \<Rightarrow> Inl (Exn UserInputError (''Upload knowledge failed: '' @ str_of e) None)
         | Cancelled \<Rightarrow> Inl cancelled)) \<and>
   (fst (check_updates env s) = Inl ex \<longrightarrow>
      fst (add_knowledge_async env task_id files pat fp qa s) = Inl ex \<and>
      task_status_file (snd (add_knowledge_async env task_id files pat fp qa s)) =
        task_status_file s)"
proof (intro conjI impI)
  assume fresh: "fst (check_updates env s) = Inr ()"
  obtain s0 where s0: "check_updates env s = (Inr (), s0)" "task_status_file s0 = task_status_file s"
    using fresh by (rule check_updates_fresh)
  show "task_status_file (snd (add_knowledge_async env task_id files pat fp qa s)) =
        Some (log_text s @ (task_id @ [TAB] @ ''processing'' @ [LF]) @
              (case rag_aload_knowledge env files pat fp qa of
                 Returns u \<Rightarrow> task_id @ [TAB] @ ''completed'' @ [LF]
               | Raises e \<Rightarrow> task_id @ [TAB] @ ''failed'' @ [TAB] @ failure_detail e @ [LF]
               | Cancelled \<Rightarrow> []))"
    by (simp add: add_knowledge_async_def s0 Let_def append_status_def log_text_def
          split: option.splits awaited.splits)
  show "fst (add_knowledge_async env task_id files pat fp qa s) =
        (case rag_aload_knowledge env files pat fp qa of
           Returns u \<Rightarrow> Inr ()
         | Raises e \<Rightarrow> Inl (Exn UserInputError (''Upload knowledge failed: '' @ str_of e) None)
         | Cancelled \<Rightarrow> Inl cancelled)"
    by (simp add: add_knowledge_async_def s0 Let_def split: awaited.splits)
next
  assume failed: "fst (check_updates env s) = Inl ex"
  obtain r s0 where r: "check_updates env s = (r, s0)" by (cases "check_updates env s")
  with failed have c: "check_updates env s = (Inl ex, s0)" by simp
  have f: "task_status_file s0 = task_status_file s"
    using check_updates_frame [of env s] r by simp
  show "fst (add_knowledge_async env task_id files pat fp qa s) = Inl ex"
    by (simp add: add_knowledge_async_def c)
  show "task_status_file (snd (add_knowledge_async env task_id files pat fp qa s)) =
        task_status_file s"
    by (simp add: add_knowledge_async_def c f)
qed

theorem ingestion_appends_processing_then_terminal_witness:
  "add_knowledge_async (example_env (Inr 7) (Returns ()))
       ''t1'' [''a.txt''] None None False example_service =
     (Inr (),
      example_service
        \<lparr>task_status_file :=
           Some (''t1'' @ [TAB] @ ''processing'' @ [LF] @ ''t1'' @ [TAB] @ ''completed'' @ [LF]),
         rag_calls := [AloadKnowledge [''a.txt''] None None False]\<rparr>) \<and>
   task_status_file (snd (add_knowledge_async
       (example_env (Inr 7) (Raises (Exn OtherException ''boom'' None)))
       ''t1'' [''a.txt''] None None False example_service)) =
     Some (''t1'' @ [TAB] @ ''processing'' @ [LF] @
           ''t1'' @ [TAB] @ ''failed'' @ [TAB] @ ''boom: None'' @ [LF]) \<and>
   fst (add_knowledge_async
       (example_env (Inl (Exn OtherException ''stat failed'' None)) (Returns ()))
       ''t1'' [''a.txt''] None None False example_service) =
     Inl (Exn OtherException ''stat failed'' None) \<and>
   task_status_file (snd (add_knowledge_async
       (example_env (Inl (Exn OtherException ''stat failed'' None)) (Returns ()))
       ''t1'' [''a.txt''] None None False example_service)) = None"
proof -
  let ?ok = "example_env (Inr 7) (Returns ())"
  let ?ex = "Exn OtherException ''boom'' None"
  let ?bad = "example_env (Inr 7) (Raises ?ex)"
  let ?st = "Exn OtherException ''stat failed'' None"
  let ?stale = "example_env (Inl ?st) (Returns ())"
  have l: "log_text example_service = []" "task_status_file example_service = None"
    by (simp_all add: log_text_def example_service_def)
  have d: "failure_detail ?ex = ''boom: None''"
    by (simp add: failure_detail_def replace_def cause_str_def)
  have h1: "fst (check_updates ?ok example_service) = Inr ()"
    by (simp add: check_updates_def example_env_def example_service_def)
  have h2: "fst (check_updates ?bad example_service) = Inr ()"
    by (simp add: check_updates_def example_env_def example_service_def)
  have h3: "fst (check_updates ?stale example_service) = Inl ?st"
    by (simp add: check_updates_def example_env_def example_service_def)
  have a1: "rag_aload_knowledge ?ok [''a.txt''] None None False = Returns ()"
    and a2: "rag_aload_knowledge ?bad [''a.txt''] None None False = Raises ?ex"
    by (simp_all add: example_env_def)
  have full: "add_knowledge_async ?ok ''t1'' [''a.txt''] None None False example_service =
     (Inr (),
      example_service
        \<lparr>task_status_file :=
           Some (''t1'' @ [TAB] @ ''processing'' @ [LF] @ ''t1'' @ [TAB] @ ''completed'' @ [LF]),
         rag_calls := [AloadKnowledge [''a.txt''] None None False]\<rparr>)"
    by (simp add: add_knowledge_async_def check_updates_def example_env_def example_service_def
          append_status_def Let_def)
  note t2 = ingestion_appends_processing_then_terminal
      [of ?bad example_service "''t1''" "[''a.txt'']" None None False]
  from t2 h2 have b: "task_status_file (snd (add_knowledge_async ?bad
       ''t1'' [''a.txt''] None None False example_service)) =
        Some (log_text example_service @ (''t1'' @ [TAB] @ ''processing'' @ [LF]) @
              (case rag_aload_knowledge ?bad [''a.txt''] None None False of
                 Returns u \<Rightarrow> ''t1'' @ [TAB] @ ''completed'' @ [LF]
               | Raises e \<Rightarrow> ''t1'' @ [TAB] @ ''failed'' @ [TAB] @ failure_detail e @ [LF]
               | Cancelled \<Rightarrow> []))"
    by blast
  note t3 = ingestion_appends_processing_then_terminal
      [of ?stale example_service "''t1''" "[''a.txt'']" None None False ?st]
  from t3 h3 have c: "fst (add_knowledge_async ?stale
       ''t1'' [''a.txt''] None None False example_service) = Inl ?st"
    and c': "task_status_file (snd (add_knowledge_async ?stale
       ''t1'' [''a.txt''] None None False example_service)) = task_status_file example_service"
    by blast+
  show ?thesis
    unfolding full b c c' a2 by (simp add: l d)
qed

text \<open>
  C6 as stated fails in two ways. The freshness check runs before the first record is
  written and outside the \<^verbatim>\<open>try\<close>, so an invocation whose check raises appends no
  record at all. And \<^verbatim>\<open>except Exception\<close> does not catch the cancellation of the
  awaited load, so a cancelled invocation leaves the \<^verbatim>\<open>processing\<close> record without
  a terminal one.
\<close>

theorem ingestion_without_record_counterexample:
  "add_knowledge_async (example_env (Inl (Exn OtherException ''stat failed'' None)) (Returns ()))
       ''t1'' [''a.txt''] None None False example_service =
     (Inl (Exn OtherException ''stat failed'' None), example_service) \<and>
   task_status_file example_service = None \<and>
   add_knowledge_async (example_env (Inr 7) Cancelled)
       ''t1'' [''a.txt''] None None False example_service =
     (Inl cancelled,
      example_service
        \<lparr>task_status_file := Some (''t1'' @ [TAB] @ ''processing'' @ [LF]),
         rag_calls := [AloadKnowledge [''a.txt''] None None False]\<rparr>)"
  by (simp add: add_knowledge_async_def check_updates_def example_env_def example_service_def
        append_status_def Let_def)

subsection \<open>The latest status of a task\<close>

text \<open>
  C5 does not hold of the code: \<^verbatim>\<open>get_task_status\<close> matches a line when the line
  starts with the task identifier, not when its identifier field equals it. With the
  single record of task \<^verbatim>\<open>ab\<close> in the log, the lookup of \<^verbatim>\<open>a\<close>, a task with no
  record, returns \<^verbatim>\<open>processing\<close> where the claim says \<^verbatim>\<open>unknown\<close>. And while the
  log does not exist, \<^verbatim>\<open>get_task_status\<close> returns the bare string \<^verbatim>\<open>unknown\<close>
  instead of a pair, so that the route, which unpacks the result into two names, raises
  \<^verbatim>\<open>ValueError\<close>.
\<close>

theorem get_task_status_prefix_match:
  "fst (get_task_status (example_env (Inr 7) (Returns ())) ''a''
         (example_service\<lparr>task_status_file := Some (''ab'' @ [TAB] @ ''processing'' @ [LF])\<rparr>)) =
     Inr (StatusDetail ''processing'' None) \<and>
   fst (get_task_status (example_env (Inr 7) (Returns ())) ''t1'' example_service) =
     Inr (StatusOnly ''unknown'') \<and>
   fst (task_status (example_env (Inr 7) (Returns ())) ''t1'' example_service) =
     Inl (Exn ValueError ''too many values to unpack (expected 2)'' None)"
  by (simp add: task_status_def get_task_status_def check_updates_def example_env_def
        example_service_def readlines_def startswith_def strip_def rstrip_def isspace_def)

subsection \<open>Reloading the configuration\<close>

text \<open>
  C7. When the content of the persisted snapshot equals the cached dictionary of the
  active one, \<^verbatim>\<open>reload\<close> changes nothing and calls nothing, and \<^verbatim>\<open>check_updates\<close>,
  whatever modification time \<open>t\<close> it reads, makes no call (no downstream reload, no
  persist) and keeps the active snapshot and its cached dictionary; it only records
  \<open>t\<close> as the time last seen.
\<close>

theorem unchanged_content_is_not_reloaded:
  assumes "from_snapshot env = Inr snap"
      and "to_dict (get_value snap) = config_dict_value s"
      and "get_config_mtime env (rag_configuration s) = Inr t"
  shows "reload env None s = (Inr (), s) \<and>
         fst (check_updates env s) = Inr () \<and>
         reload env (Some []) s = (Inr (), s) \<and>
         rag_calls (snd (check_updates env s)) = rag_calls s \<and>
         rag_configuration (snd (check_updates env s)) = rag_configuration s \<and>
         config_dict_value (snd (check_updates env s)) = config_dict_value s \<and>
         config_modified_time (snd (check_updates env s)) = t"
  using assms by (simp add: reload_def reload_body_def check_updates_def)

theorem unchanged_content_is_not_reloaded_witness:
  "config_modified_time example_service \<noteq> 8 \<and>
   snapshot_origin (rag_configuration example_service) = 0 \<and>
   reload (example_env (Inr 8) (Returns ())) None example_service = (Inr (), example_service) \<and>
   reload (example_env (Inr 8) (Returns ())) (Some []) example_service = (Inr (), example_service) \<and>
   fst (check_updates (example_env (Inr 8) (Returns ())) example_service) = Inr () \<and>
   rag_calls (snd (check_updates (example_env (Inr 8) (Returns ())) example_service)) = [] \<and>
   rag_configuration (snd (check_updates (example_env (Inr 8) (Returns ())) example_service)) =
     \<lparr>snapshot_origin = 0, get_value = [(''llm'', ''a'')]\<rparr> \<and>
   config_dict_value (snd (check_updates (example_env (Inr 8) (Returns ())) example_service)) =
     [(''llm'', ''a'')] \<and>
   config_modified_time (snd (check_updates (example_env (Inr 8) (Returns ())) example_service)) = 8"
proof -
  have h1: "from_snapshot (example_env (Inr 8) (Returns ())) =
      Inr \<lparr>snapshot_origin = 1, get_value = [(''llm'', ''a'')]\<rparr>"
    by (simp add: example_env_def)
  have h2: "to_dict (get_value \<lparr>snapshot_origin = 1, get_value = [(''llm'', ''a'')]\<rparr>) =
      config_dict_value example_service"
    by (simp add: to_dict_def example_service_def)
  have h3: "get_config_mtime (example_env (Inr 8) (Returns ())) (rag_configuration example_service) = Inr 8"
    by (simp add: example_env_def)
  have s: "config_modified_time example_service \<noteq> 8"
     "snapshot_origin (rag_configuration example_service) = 0"
     "rag_calls example_service = []"
     "rag_configuration example_service = \<lparr>snapshot_origin = 0, get_value = [(''llm'', ''a'')]\<rparr>"
     "config_dict_value example_service = [(''llm'', ''a'')]"
    by (simp_all add: example_service_def)
  show ?thesis
    using unchanged_content_is_not_reloaded [OF h1 h2 h3] by (simp add: s)
qed

subsection \<open>The freshness check gates every operation\<close>



section \<open>Properties of the data loader\<close>

subsection \<open>Identifiers of the nodes of documents that are not chunked\<close>











lemma file_types:
  "extract_file_type (doc_metadata (example_doc ''a.csv'' b)) = ''.csv''"
  "extract_file_type (doc_metadata (example_doc ''a.txt'' b)) = ''.txt''"
  by (simp_all add: example_doc_def extract_file_type_def dict_get_def splitext_def rfind_def Let_def)



subsection \<open>Question-answer nodes\<close>

text \<open>
  Whenever an extraction pass returns at least one pair for a node, the loop leaves the
  last answer in the dictionary of that node itself.
\<close>

lemma map_of_setitem: "map_of (setitem m k v) k = Some v"
  by (induction m) auto

lemma TextNode_keeps_cells:
  "r < length st \<Longrightarrow> TextNode copies i t r' st = (n, st') \<Longrightarrow>
   r < length st' \<and> st' ! r = st ! r"
  by (auto simp: TextNode_def nth_append split: if_splits)

lemma qa_pairs_loop_writes_parent:
  assumes "metadata_ref node < length st" "qas \<noteq> []"
  shows "map_of (snd (qa_pairs_loop copies node qas q_cnt (qa_nodes, st)) ! metadata_ref node)
           ''answer'' = Some (snd (last qas))"
  using assms
proof (induction qas arbitrary: q_cnt qa_nodes st)
  case Nil
  then show ?case by simp
next
  case (Cons qa qas)
  obtain q a where qa: "qa = (q, a)" by (cases qa)
  let ?r = "metadata_ref node"
  let ?st1 = "st[?r := setitem (st ! ?r) ''answer'' a]"
  obtain n st2 where t: "TextNode copies (node_id node @ ''_'' @ str_nat q_cnt) q ?r ?st1 = (n, st2)"
    by (cases "TextNode copies (node_id node @ ''_'' @ str_nat q_cnt) q ?r ?st1")
  have r1: "?r < length ?st1" using Cons.prems by simp
  have k: "?r < length st2 \<and> st2 ! ?r = ?st1 ! ?r"
    using TextNode_keeps_cells [OF r1 t] .
  show ?case
  proof (cases "qas = []")
    case True
    then show ?thesis
      using k Cons.prems t by (simp add: qa map_of_setitem)
  next
    case False
    then show ?thesis
      using Cons.IH [of st2 "q_cnt + 1" "qa_nodes @ [n]"] k t by (simp add: qa)
  qed
qed

text \<open>
  C1 does not hold of the code. One text document gives one parent node \<^verbatim>\<open>p\<close>; the
  first extraction pass returns the pairs (Q1, A1) and (Q2, A2) for it. Without
  extraction the metadata of \<^verbatim>\<open>p\<close> has two items. With extraction the loop writes
  the answers into the dictionary of the parent itself, which ends up holding the
  answer A2, whether the \<^verbatim>\<open>TextNode\<close> constructor stores a copy of the dictionary
  it is given (then the two new nodes hold their own answers) or the dictionary itself
  (then the parent and both new nodes share one dictionary, with the answer A2).
\<close>

theorem qa_extraction_mutates_parent_metadata:
  "get_nodes (example_loader [example_doc ''a.txt'' ''body''] [(''Q1'', ''A1''), (''Q2'', ''A2'')] True)
      (PathStr ''a.txt'') None False =
     Inr (Some [new_node ''p'' ''body'' 0],
          [[(''file_name'', ''a.txt''), (''file_path'', ''a.txt'')]]) \<and>
   get_nodes (example_loader [example_doc ''a.txt'' ''body''] [(''Q1'', ''A1''), (''Q2'', ''A2'')] True)
      (PathStr ''a.txt'') None True =
     Inr (Some [new_node ''p'' ''body'' 0,
                mark_excluded (new_node ''p_0'' ''Q1'' 1),
                mark_excluded (new_node ''p_1'' ''Q2'' 2)],
          [[(''file_name'', ''a.txt''), (''file_path'', ''a.txt''), (''answer'', ''A2'')],
           [(''file_name'', ''a.txt''), (''file_path'', ''a.txt''), (''answer'', ''A1'')],
           [(''file_name'', ''a.txt''), (''file_path'', ''a.txt''), (''answer'', ''A2'')]]) \<and>
   get_nodes (example_loader [example_doc ''a.txt'' ''body''] [(''Q1'', ''A1''), (''Q2'', ''A2'')] False)
      (PathStr ''a.txt'') None True =
     Inr (Some [new_node ''p'' ''body'' 0,
                mark_excluded (new_node ''p_0'' ''Q1'' 0),
                mark_excluded (new_node ''p_1'' ''Q2'' 0)],
          [[(''file_name'', ''a.txt''), (''file_path'', ''a.txt''), (''answer'', ''A2'')]])"
  by (simp add: get_nodes_def resolve_input_files_def example_loader_def doc_step_def extract_file_type_def splitext_def rfind_def dict_get_def
        DOC_TYPES_DO_NOT_NEED_CHUNKING_def TextNode_def Let_def str_nat.simps new_node_def
        example_doc_def mark_excluded_def)

subsection \<open>Nothing to ingest\<close>

text \<open>
  C8. When no input file is resolved, \<^verbatim>\<open>_get_nodes\<close> returns nothing; when it returns
  nothing or an empty list, \<^verbatim>\<open>aload\<close> and \<^verbatim>\<open>load\<close> return normally without any
  call to the index: no insertion, no persistence of the storage context, no write of
  the index-metadata record. The asynchronous insert of an empty node list returns
  normally as well, with no insertion call and no persistence; its only call
  registers the index structure with the index store.
\<close>

theorem empty_input_is_a_no_op:
  "(resolve_input_files deps fp pat = [] \<longrightarrow> get_nodes deps fp pat qa = Inr (None, [])) \<and>
   (get_nodes deps fp pat qa = Inr (None, st) \<or> get_nodes deps fp pat qa = Inr (Some [], st) \<longrightarrow>
      aload deps ideps sched fp pat qa = ([], Some (Inr ())) \<and>
      load deps ideps fp pat qa = ([], Inr ())) \<and>
   async_add_nodes_to_index ideps sched [] = ([], Some (Inr ())) \<and>
   insert_nodes_async ideps sched [] = ([AddIndexStruct], Some (Inr ()))"
  by (auto simp: get_nodes_def aload_def load_def async_add_nodes_to_index_def
        insert_nodes_async_def Let_def)

theorem empty_input_is_a_no_op_witness:
  "resolve_input_files (example_loader [] [] True) (PathList [''missing.txt'']) None = [] \<and>
   get_nodes (example_loader [] [] True) (PathList [''missing.txt'']) None False = Inr (None, []) \<and>
   aload (example_loader [] [] True) example_index [Acquire 0] (PathList [''missing.txt'']) None False =
     ([], Some (Inr ())) \<and>
   load (example_loader [] [] True) example_index (PathList [''missing.txt'']) None False =
     ([], Inr ()) \<and>
   get_nodes (example_loader [] [] True) (PathStr ''a.txt'') None False = Inr (Some [], []) \<and>
   aload (example_loader [] [] True) example_index [Acquire 0] (PathStr ''a.txt'') None False =
     ([], Some (Inr ())) \<and>
   load (example_loader [] [] True) example_index (PathStr ''a.txt'') None False = ([], Inr ())"
proof -
  let ?deps = "example_loader [] [] True"
  have r: "resolve_input_files ?deps (PathList [''missing.txt'']) None = []"
    by (simp add: resolve_input_files_def example_loader_def)
  note t1 = empty_input_is_a_no_op [of ?deps "PathList [''missing.txt'']" None False "[]"
      example_index "[Acquire 0]"]
  from t1 r have g1: "get_nodes ?deps (PathList [''missing.txt'']) None False = Inr (None, [])"
    by blast
  from t1 g1 have a1:
    "aload ?deps example_index [Acquire 0] (PathList [''missing.txt'']) None False = ([], Some (Inr ()))"
    "load ?deps example_index (PathList [''missing.txt'']) None False = ([], Inr ())"
    by blast+
  have g2: "get_nodes ?deps (PathStr ''a.txt'') None False = Inr (Some [], [])"
    by (simp add: get_nodes_def resolve_input_files_def example_loader_def)
  note t2 = empty_input_is_a_no_op [of ?deps "PathStr ''a.txt''" None False "[]"
      example_index "[Acquire 0]"]
  from t2 g2 have a2:
    "aload ?deps example_index [Acquire 0] (PathStr ''a.txt'') None False = ([], Some (Inr ()))"
    "load ?deps example_index (PathStr ''a.txt'') None False = ([], Inr ())"
    by blast+
  show ?thesis
    using r g1 a1 g2 a2 by simp
qed

section \<open>Properties of the index\<close>

subsection \<open>Batches\<close>







subsection \<open>The semaphore\<close>

lemma holding_enter:
  "i < length ts \<Longrightarrow> ts ! i \<noteq> Holding \<Longrightarrow>
   length (filter (\<lambda>t. t = Holding) (ts[i := Holding])) = Suc (length (filter (\<lambda>t. t = Holding) ts))"
proof (induction ts arbitrary: i)
  case Nil
  then show ?case by simp
next
  case (Cons t ts)
  then show ?case by (cases i) auto
qed

lemma holding_leave:
  "i < length ts \<Longrightarrow> ts ! i = Holding \<Longrightarrow> v \<noteq> Holding \<Longrightarrow>
   Suc (length (filter (\<lambda>t. t = Holding) (ts[i := v]))) = length (filter (\<lambda>t. t = Holding) ts)"
proof (induction ts arbitrary: i)
  case Nil
  then show ?case by simp
next
  case (Cons t ts)
  then show ?case by (cases i) auto
qed

lemma sched_step_semaphore:
  assumes "semaphore g + holding g = 10"
  shows "semaphore (sched_step deps batches e g) + holding (sched_step deps batches e g) = 10"
proof (cases e)
  case (Acquire i)
  then show ?thesis
    using assms holding_enter [of i "tasks g"] by (auto simp: holding_def)
next
  case (Complete i)
  then show ?thesis
    using assms holding_leave [of i "tasks g" Returned] by (auto simp: holding_def)
next
  case (Fail i ex)
  then show ?thesis
    using assms holding_leave [of i "tasks g" Raised] by (auto simp: holding_def)
qed

lemma run_sched_semaphore:
  "semaphore g + holding g = 10 \<Longrightarrow>
   semaphore (run_sched deps batches sched g) + holding (run_sched deps batches sched g) = 10"
  by (induction sched arbitrary: g) (auto simp: sched_step_semaphore)

lemma holding_initial:
  "holding \<lparr>semaphore = 10, tasks = replicate n Waiting, first_raised = None, index_calls = []\<rparr> = 0"
  by (simp add: holding_def)

text \<open>
  C3. In every state that a run of \<^verbatim>\<open>_postprocess_all_batch\<close> reaches, whatever the
  schedule, at most ten coroutines are inside \<^verbatim>\<open>async with semaphore\<close>, that is, at
  most ten insertions are in flight; the value of the semaphore and their number add
  up to ten; and while ten are in flight no further coroutine can enter: it waits
  until one of them leaves.
\<close>

theorem at_most_ten_batches_in_flight:
  "holding (postprocess_all_batch deps batches sched) \<le> 10 \<and>
   semaphore (postprocess_all_batch deps batches sched) +
     holding (postprocess_all_batch deps batches sched) = 10 \<and>
   (holding (postprocess_all_batch deps batches sched) = 10 \<longrightarrow>
      sched_step deps batches (Acquire i) (postprocess_all_batch deps batches sched) =
        postprocess_all_batch deps batches sched)"
proof -
  let ?g = "postprocess_all_batch deps batches sched"
  have "semaphore ?g + holding ?g = 10"
    unfolding postprocess_all_batch_def
    by (rule run_sched_semaphore) (simp add: holding_initial)
  then show ?thesis by auto
qed

theorem at_most_ten_batches_in_flight_witness:
  "holding ten_acquired = 10 \<and> semaphore ten_acquired = 0 \<and>
   tasks ten_acquired ! 10 = Waiting \<and>
   sched_step example_index example_batches (Acquire 10) ten_acquired = ten_acquired \<and>
   tasks (sched_step example_index example_batches (Acquire 10)
           (sched_step example_index example_batches (Complete 0) ten_acquired)) ! 10 = Holding"
proof -
  have h: "holding (postprocess_all_batch example_index example_batches (map Acquire [0..<10])) = 10"
    unfolding ten_acquired_def [symmetric] by code_simp
  have s: "semaphore ten_acquired = 0" by code_simp
  have w: "tasks ten_acquired ! 10 = Waiting" by code_simp
  have n: "tasks (sched_step example_index example_batches (Acquire 10)
           (sched_step example_index example_batches (Complete 0) ten_acquired)) ! 10 = Holding"
    by code_simp
  note t = at_most_ten_batches_in_flight [of example_index example_batches "map Acquire [0..<10]" 10]
  from t h have "sched_step example_index example_batches (Acquire 10)
      (postprocess_all_batch example_index example_batches (map Acquire [0..<10])) =
      postprocess_all_batch example_index example_batches (map Acquire [0..<10])"
    by blast
  then have "sched_step example_index example_batches (Acquire 10) ten_acquired = ten_acquired"
    by (simp only: ten_acquired_def)
  with h s w n show ?thesis by (simp add: ten_acquired_def)
qed

subsection \<open>One insertion call per batch, persistence after the join\<close>





















end
